theory Spec2Isabelle
  imports Main
begin

section \<open>IMSCC to Google Form converter (Code.js)\<close>

text \<open>
  The script runs inside Google Apps Script. Three host services matter to the functions
  modelled here: the XML service (documents as trees of elements), the Drive service
  (folders holding files and folders) and \<open>Utilities.getUuid\<close>. Each is modelled by
  the data it hands to the script. Strings are lists of characters.
\<close>

subsection \<open>JavaScript strings\<close>

text \<open>A string is truthy exactly when it is not empty.\<close>

definition truthy :: "string \<Rightarrow> bool" where
  "truthy s = (s \<noteq> [])"

definition startsWith :: "string \<Rightarrow> string \<Rightarrow> bool" where
  "startsWith s t = (take (length t) s = t)"

definition endsWith :: "string \<Rightarrow> string \<Rightarrow> bool" where
  "endsWith s t = (length t \<le> length s \<and> drop (length s - length t) s = t)"

text \<open>\<open>s.includes(t)\<close>: \<open>t\<close> occurs in \<open>s\<close> as a contiguous run; the empty string always does.\<close>

primrec includes_str :: "string \<Rightarrow> string \<Rightarrow> bool" where
  "includes_str [] t = (t = [])"
| "includes_str (c # cs) t = (startsWith (c # cs) t \<or> includes_str cs t)"

text \<open>\<open>s.split(sep)\<close> for a one-character separator: never the empty list, \<open>"".split("/")\<close>
  is \<open>[""]\<close> and \<open>"a/".split("/")\<close> is \<open>["a", ""]\<close>.\<close>

fun split_str :: "string \<Rightarrow> char \<Rightarrow> string list" where
  "split_str [] sep = [[]]"
| "split_str (c # cs) sep =
     (if c = sep then [] # split_str cs sep
      else (case split_str cs sep of
              [] \<Rightarrow> [[c]]
            | p # ps \<Rightarrow> (c # p) # ps))"

subsection \<open>The XML service\<close>

text \<open>
  An element has a local name, a namespace URI (empty for none), its attributes without
  namespace and its content in document order. The accessors the script calls are those of
  the host: \<open>getChild(name)\<close> and \<open>getChildren(name)\<close> look only at the direct child
  elements that carry this name and no namespace, \<open>getChild\<close> yielding the first one or
  null; \<open>getText()\<close> is the text directly inside the element; \<open>getChildText(name)\<close> is
  the text of \<open>getChild(name)\<close> or null; \<open>getAttribute(name)\<close> is the attribute or null.
  Null is \<open>None\<close>.
\<close>

datatype element =
  Element (getName: string) (getNamespace: string) (getAttributes: "(string \<times> string) list")
    (getContent: "node list")
and node = TextNode string | ElementNode element

fun childElements :: "node list \<Rightarrow> element list" where
  "childElements [] = []"
| "childElements (TextNode s # ns) = childElements ns"
| "childElements (ElementNode e # ns) = e # childElements ns"

fun childTexts :: "node list \<Rightarrow> string" where
  "childTexts [] = []"
| "childTexts (TextNode s # ns) = s @ childTexts ns"
| "childTexts (ElementNode e # ns) = childTexts ns"

definition getChildren :: "element \<Rightarrow> string \<Rightarrow> element list" where
  "getChildren e name =
     filter (\<lambda>c. getName c = name \<and> getNamespace c = []) (childElements (getContent e))"

definition getChild :: "element \<Rightarrow> string \<Rightarrow> element option" where
  "getChild e name = (case getChildren e name of [] \<Rightarrow> None | c # cs \<Rightarrow> Some c)"

definition getText :: "element \<Rightarrow> string" where
  "getText e = childTexts (getContent e)"

definition getChildText :: "element \<Rightarrow> string \<Rightarrow> string option" where
  "getChildText e name = (case getChild e name of None \<Rightarrow> None | Some c \<Rightarrow> Some (getText c))"

definition getAttribute :: "element \<Rightarrow> string \<Rightarrow> string option" where
  "getAttribute e name = map_of (getAttributes e) name"

subsection \<open>Questions\<close>

text \<open>
  The question object literal of both item parsers. \<open>correctAnswer\<close> is null, a string or
  an array of strings.
\<close>

datatype answer = Null | Str string | Arr "string list"

record choice =
  cid :: string
  ctext :: string

record question =
  qid :: string
  qtitle :: string
  qtype :: string
  qtext :: string
  choices :: "choice list"
  correctAnswer :: answer
  points :: int

text \<open>
  \<open>Utilities.getUuid()\<close> is a host call whose results the script cannot predict. The host
  is a function from the number of calls made so far to the outcome of the next call:
  \<open>Some\<close> of the identifier returned, or \<open>None\<close> when the call raises. Every function
  that may call it takes the count of earlier calls and returns the new count.
\<close>

type_synonym uuids = "nat \<Rightarrow> string option"

text \<open>\<open>attr ? attr.getValue() : Utilities.getUuid()\<close>\<close>

definition valueOrUuid :: "uuids \<Rightarrow> nat \<Rightarrow> string option \<Rightarrow> string option \<times> nat" where
  "valueOrUuid gen k attr =
     (case attr of Some v \<Rightarrow> (Some v, k) | None \<Rightarrow> (gen k, Suc k))"

subsection \<open>parseQtiv1Item\<close>

text \<open>The loop over the \<open>qtimetadatafield\<close> elements that sets \<open>question.type\<close>.\<close>

fun typeLoop :: "element list \<Rightarrow> string \<Rightarrow> string" where
  "typeLoop [] ty = ty"
| "typeLoop (field # rest) ty =
     (case (getChildText field ''fieldlabel'', getChildText field ''fieldentry'') of
        (Some label, Some entry) \<Rightarrow>
          if label = ''question_type'' \<and> truthy entry then typeLoop rest entry
          else typeLoop rest ty
      | _ \<Rightarrow> typeLoop rest ty)"

definition v1Type :: "element \<Rightarrow> string" where
  "v1Type item =
     (case getChild item ''itemmetadata'' of
        None \<Rightarrow> []
      | Some itemmetadata \<Rightarrow>
          (case getChild itemmetadata ''qtimetadata'' of
             None \<Rightarrow> []
           | Some qtimetadata \<Rightarrow> typeLoop (getChildren qtimetadata ''qtimetadatafield'') []))"

definition v1Text :: "element \<Rightarrow> string" where
  "v1Text item =
     (case getChild item ''presentation'' of
        None \<Rightarrow> []
      | Some presentation \<Rightarrow>
          (case getChild presentation ''material'' of
             None \<Rightarrow> []
           | Some material \<Rightarrow>
               (case getChild material ''mattext'' of
                  None \<Rightarrow> []
                | Some mattext \<Rightarrow> getText mattext)))"

text \<open>The loop over the \<open>response_label\<close> elements; each \<open>continue\<close> keeps the list.\<close>

fun labelLoop :: "element list \<Rightarrow> choice list \<Rightarrow> choice list" where
  "labelLoop [] cs = cs"
| "labelLoop (responseLabel # rest) cs =
     (case getAttribute responseLabel ''ident'' of
        None \<Rightarrow> labelLoop rest cs
      | Some ident \<Rightarrow>
          (case getChild responseLabel ''material'' of
             None \<Rightarrow> labelLoop rest cs
           | Some material \<Rightarrow>
               (case getChild material ''mattext'' of
                  None \<Rightarrow> labelLoop rest cs
                | Some mattext \<Rightarrow>
                    labelLoop rest (cs @ [\<lparr>cid = ident, ctext = getText mattext\<rparr>]))))"

definition v1Choices :: "element \<Rightarrow> choice list" where
  "v1Choices item =
     (case getChild item ''presentation'' of
        None \<Rightarrow> []
      | Some presentation \<Rightarrow>
          (case getChild presentation ''render_choice'' of
             None \<Rightarrow> []
           | Some renderChoice \<Rightarrow> labelLoop (getChildren renderChoice ''response_label'') []))"

text \<open>
  \<open>if (!question.correctAnswer) question.correctAnswer = []; question.correctAnswer.push(id)\<close>.
  Null and the empty string are falsy, an array is truthy; a non-empty string has no
  \<open>push\<close>, so the call raises (\<open>None\<close>).
\<close>

fun pushAnswer :: "answer \<Rightarrow> string \<Rightarrow> answer option" where
  "pushAnswer Null v = Some (Arr [v])"
| "pushAnswer (Arr vs) v = Some (Arr (vs @ [v]))"
| "pushAnswer (Str s) v = (if truthy s then None else Some (Arr [v]))"

text \<open>
  The loop over the \<open>respcondition\<close> elements, for a question of type \<open>ty\<close> whose
  \<open>correctAnswer\<close> is \<open>ca\<close> so far. \<open>None\<close>: the loop raised.
\<close>

fun respLoop :: "string \<Rightarrow> element list \<Rightarrow> answer \<Rightarrow> answer option" where
  "respLoop ty [] ca = Some ca"
| "respLoop ty (respcondition # rest) ca =
     (case getChild respcondition ''conditionvar'' of
        None \<Rightarrow> respLoop ty rest ca
      | Some conditionvar \<Rightarrow>
          (case getChild conditionvar ''varequal'' of
             None \<Rightarrow> respLoop ty rest ca
           | Some varequal \<Rightarrow>
               (let correctAnswerId = getText varequal in
                if ty = ''multiple_choice_question'' then respLoop ty rest (Str correctAnswerId)
                else if ty = ''multiple_answers_question'' then
                  (case pushAnswer ca correctAnswerId of
                     None \<Rightarrow> None
                   | Some ca' \<Rightarrow> respLoop ty rest ca')
                else respLoop ty rest ca)))"

definition v1Answer :: "string \<Rightarrow> element \<Rightarrow> answer option" where
  "v1Answer ty item =
     (case getChild item ''resprocessing'' of
        None \<Rightarrow> Some Null
      | Some resprocessing \<Rightarrow> respLoop ty (getChildren resprocessing ''respcondition'') Null)"

text \<open>
  The item parser. Its \<open>try\<close> block builds the question; whatever raises inside it is
  caught and the function returns null, here \<open>None\<close>. The two things that can raise are
  the host's \<open>getUuid\<close> and a \<open>push\<close> on a string.
\<close>

definition parseQtiv1Item :: "uuids \<Rightarrow> nat \<Rightarrow> element \<Rightarrow> question option \<times> nat" where
  "parseQtiv1Item gen k item =
     (case valueOrUuid gen k (getAttribute item ''ident'') of
        (None, k') \<Rightarrow> (None, k')
      | (Some ident, k') \<Rightarrow>
          (let question = \<lparr>qid = ident,
                 qtitle = (case getAttribute item ''title'' of Some t \<Rightarrow> t | None \<Rightarrow> []),
                 qtype = [], qtext = [], choices = [], correctAnswer = Null, points = 1\<rparr>;
               question = question\<lparr>qtype := v1Type item\<rparr>;
               question = question\<lparr>qtext := v1Text item\<rparr>;
               question = question\<lparr>choices := v1Choices item\<rparr>
           in (case v1Answer (qtype question) item of
                 None \<Rightarrow> (None, k')
               | Some ca \<Rightarrow> (Some (question\<lparr>correctAnswer := ca\<rparr>), k'))))"

subsection \<open>parseQtiv2Item\<close>

text \<open>The loop over the \<open>simpleChoice\<close> elements.\<close>

fun choiceLoop :: "element list \<Rightarrow> choice list \<Rightarrow> choice list" where
  "choiceLoop [] cs = cs"
| "choiceLoop (choice # rest) cs =
     (case getAttribute choice ''identifier'' of
        None \<Rightarrow> choiceLoop rest cs
      | Some identifier \<Rightarrow> choiceLoop rest (cs @ [\<lparr>cid = identifier, ctext = getText choice\<rparr>]))"

text \<open>The \<open>if (itemBody)\<close> block: type from the interaction present, text, choices.\<close>

definition v2Body :: "element \<Rightarrow> question \<Rightarrow> question" where
  "v2Body itemBody question =
     (let question =
            (if getChild itemBody ''choiceInteraction'' \<noteq> None
               then question\<lparr>qtype := ''multiple_choice_question''\<rparr>
             else if getChild itemBody ''extendedTextInteraction'' \<noteq> None
               then question\<lparr>qtype := ''essay_question''\<rparr>
             else if getChild itemBody ''textEntryInteraction'' \<noteq> None
               then question\<lparr>qtype := ''short_answer_question''\<rparr>
             else question);
          question =
            (case getChild itemBody ''prompt'' of
               None \<Rightarrow> question
             | Some promptElement \<Rightarrow> question\<lparr>qtext := getText promptElement\<rparr>)
      in (case getChild itemBody ''choiceInteraction'' of
            None \<Rightarrow> question
          | Some choiceInteraction \<Rightarrow>
              question\<lparr>choices :=
                choiceLoop (getChildren choiceInteraction ''simpleChoice'') (choices question)\<rparr>))"

text \<open>The \<open>if (responseDeclaration)\<close> block.\<close>

definition v2Answer :: "element \<Rightarrow> question \<Rightarrow> question" where
  "v2Answer item question =
     (case getChild item ''responseDeclaration'' of
        None \<Rightarrow> question
      | Some responseDeclaration \<Rightarrow>
          (case getChild responseDeclaration ''correctResponse'' of
             None \<Rightarrow> question
           | Some correctResponse \<Rightarrow>
               (let values = getChildren correctResponse ''value'' in
                if length values = 1 then question\<lparr>correctAnswer := Str (getText (values ! 0))\<rparr>
                else if length values > 1 then question\<lparr>correctAnswer := Arr (map getText values)\<rparr>
                else question)))"

definition parseQtiv2Item :: "uuids \<Rightarrow> nat \<Rightarrow> element \<Rightarrow> question option \<times> nat" where
  "parseQtiv2Item gen k item =
     (case valueOrUuid gen k (getAttribute item ''identifier'') of
        (None, k') \<Rightarrow> (None, k')
      | (Some identifier, k') \<Rightarrow>
          (let question = \<lparr>qid = identifier,
                 qtitle = (case getAttribute item ''title'' of Some t \<Rightarrow> t | None \<Rightarrow> []),
                 qtype = [], qtext = [], choices = [], correctAnswer = Null, points = 1\<rparr>;
               question = (case getChild item ''itemBody'' of
                             None \<Rightarrow> question
                           | Some itemBody \<Rightarrow> v2Body itemBody question)
           in (Some (v2Answer item question), k')))"

subsection \<open>parseQtiv1Quiz, parseQtiv2Quiz, parseQuizXml\<close>

text \<open>
  A manifest resource selected as a quiz (the object \<open>findQuizzesInManifest\<close> pushes) and
  the parsed content later stored in it.
\<close>

record quizContent =
  ctitle :: string
  description :: string
  questions :: "question list"

record quiz =
  quizIdentifier :: string
  href :: string
  files :: "string list"
  title :: string
  content :: "quizContent option"

text \<open>The loop over the assessment's \<open>qtimetadatafield\<close> elements that sets the description.\<close>

fun descriptionLoop :: "element list \<Rightarrow> string \<Rightarrow> string" where
  "descriptionLoop [] d = d"
| "descriptionLoop (field # rest) d =
     (case (getChildText field ''fieldlabel'', getChildText field ''fieldentry'') of
        (Some label, Some entry) \<Rightarrow>
          if label = ''qmd_description'' \<and> truthy entry then descriptionLoop rest entry
          else descriptionLoop rest d
      | _ \<Rightarrow> descriptionLoop rest d)"

text \<open>
  \<open>for (const item of items) { const question = parse(item); if (question) push }\<close>,
  for either item parser. A question object is always truthy, null never.
\<close>

fun itemLoop ::
  "(uuids \<Rightarrow> nat \<Rightarrow> element \<Rightarrow> question option \<times> nat) \<Rightarrow> uuids \<Rightarrow> nat \<Rightarrow> element list \<Rightarrow>
     question list \<Rightarrow> question list \<times> nat" where
  "itemLoop parse gen k [] qs = (qs, k)"
| "itemLoop parse gen k (item # rest) qs =
     (case parse gen k item of
        (None, k') \<Rightarrow> itemLoop parse gen k' rest qs
      | (Some question, k') \<Rightarrow> itemLoop parse gen k' rest (qs @ [question]))"

fun sectionLoop :: "uuids \<Rightarrow> nat \<Rightarrow> element list \<Rightarrow> question list \<Rightarrow> question list \<times> nat" where
  "sectionLoop gen k [] qs = (qs, k)"
| "sectionLoop gen k (section # rest) qs =
     (case itemLoop parseQtiv1Item gen k (getChildren section ''item'') qs of
        (qs', k') \<Rightarrow> sectionLoop gen k' rest qs')"

definition parseQtiv1Quiz :: "uuids \<Rightarrow> nat \<Rightarrow> element \<Rightarrow> quiz \<Rightarrow> quizContent \<times> nat" where
  "parseQtiv1Quiz gen k root quiz =
     (let result = \<lparr>ctitle = title quiz, description = [], questions = []\<rparr> in
      case getChild root ''assessment'' of
        None \<Rightarrow> (result, k)
      | Some assessment \<Rightarrow>
          (let result = (case getAttribute assessment ''title'' of
                           None \<Rightarrow> result
                         | Some assessmentTitle \<Rightarrow> result\<lparr>ctitle := assessmentTitle\<rparr>);
               result = (case getChild assessment ''qtimetadata'' of
                           None \<Rightarrow> result
                         | Some metadata \<Rightarrow>
                             result\<lparr>description :=
                               descriptionLoop (getChildren metadata ''qtimetadatafield'')
                                 (description result)\<rparr>)
           in (case itemLoop parseQtiv1Item gen k (getChildren assessment ''item'')
                      (questions result) of
                 (qs, k') \<Rightarrow>
                   (case sectionLoop gen k' (getChildren assessment ''section'') qs of
                      (qs', k'') \<Rightarrow> (result\<lparr>questions := qs'\<rparr>, k'')))))"

definition parseQtiv2Quiz :: "uuids \<Rightarrow> nat \<Rightarrow> element \<Rightarrow> quiz \<Rightarrow> quizContent \<times> nat" where
  "parseQtiv2Quiz gen k root quiz =
     (let result = \<lparr>ctitle = title quiz, description = [], questions = []\<rparr>;
          result = (case getAttribute root ''title'' of
                      None \<Rightarrow> result
                    | Some titleAttr \<Rightarrow> result\<lparr>ctitle := titleAttr\<rparr>)
      in (case itemLoop parseQtiv2Item gen k (getChildren root ''item'') (questions result) of
            (qs, k') \<Rightarrow> (result\<lparr>questions := qs\<rparr>, k')))"

text \<open>A document is given by its root element.\<close>

definition parseQuizXml :: "uuids \<Rightarrow> nat \<Rightarrow> element \<Rightarrow> quiz \<Rightarrow> quizContent \<times> nat" where
  "parseQuizXml gen k root quiz =
     (let rootName = getName root in
      if rootName = ''questestinterop'' then parseQtiv1Quiz gen k root quiz
      else if rootName = ''assessment'' then parseQtiv2Quiz gen k root quiz
      else (\<lparr>ctitle = title quiz, description = [], questions = []\<rparr>, k))"

subsection \<open>The Drive service\<close>

text \<open>
  A Drive folder holds files and folders; both lists are in the order in which the host's
  iterators hand the children out. Names need not be unique. \<open>getFilesByName\<close> and
  \<open>getFoldersByName\<close> of a folder yield its direct children of that name and nothing
  from deeper folders. The data of a file is the text \<open>getBlob().getDataAsString()\<close>
  returns.
\<close>

datatype driveFile = File (fileName: string) (getDataAsString: string)

datatype folder = Folder (folderName: string) (getFiles: "driveFile list") (getFolders: "folder list")

definition getFilesByName :: "folder \<Rightarrow> string \<Rightarrow> driveFile list" where
  "getFilesByName folder name = filter (\<lambda>f. fileName f = name) (getFiles folder)"

definition getFoldersByName :: "folder \<Rightarrow> string \<Rightarrow> folder list" where
  "getFoldersByName folder name = filter (\<lambda>d. folderName d = name) (getFolders folder)"

subsection \<open>getAllFilesInFolder, findFileByPath\<close>

fun getAllFilesInFolder :: "folder \<Rightarrow> driveFile list" where
  "getAllFilesInFolder (Folder name fs subfolders) =
     fs @ concat (map getAllFilesInFolder subfolders)"

text \<open>The loop of \<open>findFileByPath\<close> over all parts but the last; \<open>None\<close> is its early
  \<open>return null\<close>.\<close>

fun navigate :: "folder \<Rightarrow> string list \<Rightarrow> folder option" where
  "navigate currentFolder [] = Some currentFolder"
| "navigate currentFolder (name # rest) =
     (if \<not> truthy name then navigate currentFolder rest
      else (case getFoldersByName currentFolder name of
              [] \<Rightarrow> None
            | subFolder # others \<Rightarrow> navigate subFolder rest))"

definition findFileByPath :: "folder \<Rightarrow> string \<Rightarrow> driveFile option" where
  "findFileByPath rootFolder path =
     (if \<not> truthy path then None
      else (let parts = split_str path CHR ''/'' in
            case navigate rootFolder (butlast parts) of
              None \<Rightarrow> None
            | Some currentFolder \<Rightarrow>
                (let name = last parts in
                 if \<not> truthy name then None
                 else (case getFilesByName currentFolder name of
                         [] \<Rightarrow> None
                       | f # others \<Rightarrow> Some f))))"

subsection \<open>findAndParseManifest\<close>

text \<open>
  \<open>XmlService.parse\<close> is the host's: it returns a document or raises with a message
  (\<open>Inl\<close>). A thrown \<open>Error\<close> is the value \<open>Error\<close> of its message.
\<close>

type_synonym xmlParser = "string \<Rightarrow> string + element"

datatype error = Error string


subsection \<open>findAndParseQuizContent\<close>

text \<open>The loop over \<open>quiz.files\<close>, with the line it prints when it finds the file.\<close>

fun filesLoop :: "folder \<Rightarrow> string list \<Rightarrow> driveFile option \<times> string list" where
  "filesLoop tempFolder [] = (None, [])"
| "filesLoop tempFolder (filePath # rest) =
     (if endsWith filePath ''.xml'' then
        (case findFileByPath tempFolder filePath of
           Some quizFile \<Rightarrow> (Some quizFile, [''Found quiz file: '' @ filePath])
         | None \<Rightarrow> filesLoop tempFolder rest)
      else filesLoop tempFolder rest)"

text \<open>The loop over all files of the tree, with the line it prints when it finds one.\<close>

fun scanLoop :: "quiz \<Rightarrow> driveFile list \<Rightarrow> driveFile option \<times> string list" where
  "scanLoop quiz [] = (None, [])"
| "scanLoop quiz (f # rest) =
     (if endsWith (fileName f) ''.xml'' then
        (let content = getDataAsString f in
         if includes_str content ''questestinterop'' \<or> includes_str content ''assessment'' \<or>
            includes_str content ''qti'' \<or> includes_str content (quizIdentifier quiz)
         then (Some f, [''Found potential quiz file: '' @ fileName f])
         else scanLoop quiz rest)
      else scanLoop quiz rest)"

text \<open>
  The first part of \<open>findAndParseQuizContent\<close>, up to the point where \<open>quizFile\<close> is
  decided, with the console lines printed on the way.
\<close>

definition findQuizFile :: "quiz \<Rightarrow> folder \<Rightarrow> driveFile option \<times> string list" where
  "findQuizFile quiz tempFolder =
     (let quizFile = (if truthy (href quiz) then findFileByPath tempFolder (href quiz) else None);
          (quizFile, log) =
            (if quizFile = None \<and> length (files quiz) > 0 then filesLoop tempFolder (files quiz)
             else (quizFile, []))
      in if quizFile = None then
           (case scanLoop quiz (getAllFilesInFolder tempFolder) of
              (quizFile, log') \<Rightarrow>
                (quizFile,
                 log @ [''Quiz file not found through standard paths. Attempting to search all extracted files...'']
                     @ log'))
         else (quizFile, log))"

definition findAndParseQuizContent ::
  "xmlParser \<Rightarrow> uuids \<Rightarrow> nat \<Rightarrow> quiz \<Rightarrow> folder \<Rightarrow> quizContent \<times> nat" where
  "findAndParseQuizContent parse gen k quiz tempFolder =
     (case fst (findQuizFile quiz tempFolder) of
        None \<Rightarrow> (\<lparr>ctitle = title quiz, description = [], questions = []\<rparr>, k)
      | Some quizFile \<Rightarrow>
          (case parse (getDataAsString quizFile) of
             Inl message \<Rightarrow> (\<lparr>ctitle = title quiz, description = [], questions = []\<rparr>, k)
           | Inr document \<Rightarrow> parseQuizXml gen k document quiz))"

subsection \<open>createTempFolder, extractIMSCC\<close>

text \<open>\<open>createTempFolder\<close> returns a new, empty folder of the configured name.\<close>

definition createTempFolder :: folder where
  "createTempFolder = Folder ''IMSCC_Temp'' [] []"

text \<open>
  \<open>Utilities.unzip\<close> returns one blob per archive entry, the name of a blob being the
  entry's path, or raises with a message (\<open>Inl\<close>). The script calls it once and, if that
  call raises, once more; the host is given by the outcomes of the two calls. In the loop
  over the blobs \<open>createFile\<close> is called at most once per round and may raise too: the
  host says for each round whether the call succeeds. The other Drive calls are taken to
  succeed.
\<close>

record blob =
  blobName :: string
  blobBytes :: string

record extractionHost =
  unzipFirst :: "string + blob list"
  unzipRetry :: "string + blob list"
  createFileSucceeds :: "nat \<Rightarrow> bool"

text \<open>
  \<open>createFile(blob)\<close> makes a file of the blob's name and bytes, and
  \<open>createFolder(name)\<close> an empty folder; the new child comes last in its parent.
\<close>

definition createFile :: "blob \<Rightarrow> folder \<Rightarrow> folder" where
  "createFile b folder =
     Folder (folderName folder) (getFiles folder @ [File (blobName b) (blobBytes b)])
       (getFolders folder)"

text \<open>
  \<open>currentFolder\<close> moves down one folder per non-empty part: into the first subfolder of
  that name, or into a new one. The script then works on the folder reached; here \<open>act\<close>
  is what it does there, and the result is the folder the descent started from, after it.
\<close>

fun inSubfolder :: "string \<Rightarrow> (folder \<Rightarrow> folder) \<Rightarrow> folder list \<Rightarrow> folder list" where
  "inSubfolder name act [] = [act (Folder name [] [])]"
| "inSubfolder name act (d # ds) =
     (if folderName d = name then act d # ds else d # inSubfolder name act ds)"

fun descend :: "string list \<Rightarrow> (folder \<Rightarrow> folder) \<Rightarrow> folder \<Rightarrow> folder" where
  "descend [] act currentFolder = act currentFolder"
| "descend (name # rest) act currentFolder =
     (if \<not> truthy name then descend rest act currentFolder
      else Folder (folderName currentFolder) (getFiles currentFolder)
             (inSubfolder name (descend rest act) (getFolders currentFolder)))"

text \<open>
  One round of the loop over the extracted blobs, on the list \<open>extractedFiles\<close> and the
  temporary folder; \<open>created\<close> says whether \<open>createFile\<close> succeeds in this round. When
  it raises, the \<open>catch\<close> prints a line and the round ends: the folders are there, the
  file is not, and nothing is pushed.
\<close>

definition extractBlob ::
  "bool \<Rightarrow> blob \<Rightarrow> driveFile list \<times> folder \<Rightarrow> driveFile list \<times> folder" where
  "extractBlob created extractedBlob st =
     (case st of (extractedFiles, tempFolder) \<Rightarrow>
        if endsWith (blobName extractedBlob) ''/'' then (extractedFiles, tempFolder)
        else (let name = blobName extractedBlob;
                  parts = split_str name CHR ''/'';
                  extractedFileName = last parts
              in if \<not> truthy extractedFileName
                 then (extractedFiles, descend (butlast parts) (\<lambda>d. d) tempFolder)
                 else if created
                 then (extractedFiles @ [File (blobName extractedBlob) (blobBytes extractedBlob)],
                       descend (butlast parts) (createFile extractedBlob) tempFolder)
                 else (extractedFiles, descend (butlast parts) (\<lambda>d. d) tempFolder)))"

text \<open>The loop \<open>for (let i = 0; i < extracted.length; i++)\<close>, from round \<open>i\<close> on.\<close>

fun extractLoop ::
  "(nat \<Rightarrow> bool) \<Rightarrow> nat \<Rightarrow> blob list \<Rightarrow> driveFile list \<times> folder \<Rightarrow> driveFile list \<times> folder" where
  "extractLoop succeeds i [] st = st"
| "extractLoop succeeds i (extractedBlob # rest) st =
     extractLoop succeeds (Suc i) rest (extractBlob (succeeds i) extractedBlob st)"

text \<open>
  The part of the function after the unzip: the error thrown for an empty list is caught
  by the outer \<open>catch\<close> and thrown again with a longer message.
\<close>

definition extractBlobs ::
  "(nat \<Rightarrow> bool) \<Rightarrow> blob list \<Rightarrow> folder \<Rightarrow> error + driveFile list \<times> folder" where
  "extractBlobs succeeds extracted tempFolder =
     (if extracted = [] then
        Inl (Error (''Failed to extract IMSCC file: '' @
               ''Extraction produced no files, the IMSCC file may be invalid or empty''))
      else Inr (extractLoop succeeds 0 extracted ([], tempFolder)))"

text \<open>
  The function, for the blob of the archive file. When the first unzip raises, the script
  creates a copy of the archive in the temporary folder, unzips the copy and trashes it.
  \<open>setTrashed\<close> only marks the copy: it stays a child of the folder, and as the script
  never reads the mark, the mark is not modelled. When the second unzip raises too, the
  outer \<open>catch\<close> throws the error again with a longer message.
\<close>

definition extractIMSCC ::
  "extractionHost \<Rightarrow> blob \<Rightarrow> folder \<Rightarrow> error + driveFile list \<times> folder" where
  "extractIMSCC host blob tempFolder =
     (case unzipFirst host of
        Inr extracted \<Rightarrow> extractBlobs (createFileSucceeds host) extracted tempFolder
      | Inl unzipError \<Rightarrow>
          (let tempFolder = createFile blob tempFolder in
           case unzipRetry host of
             Inl message \<Rightarrow> Inl (Error (''Failed to extract IMSCC file: '' @ message))
           | Inr extracted \<Rightarrow> extractBlobs (createFileSucceeds host) extracted tempFolder))"

subsection \<open>createGoogleForms, addQuestionToForm\<close>

text \<open>
  The Forms service, as far as the script drives it: a form has a title, a description, its
  items in the order added and the quiz flag, which a new form has unset. An item has a
  kind, a title, choices (text and whether marked correct) and points if set. The calls
  are taken to succeed. The identifier, the two URLs and the creation date that the host
  reports for a form are not modelled.
\<close>

datatype itemKind = MultipleChoiceItem | CheckboxItem | ParagraphTextItem | TextItem

record formItem =
  kind :: itemKind
  itemTitle :: string
  itemChoices :: "(string \<times> bool) list"
  itemPoints :: "int option"

record form =
  formTitle :: string
  formDescription :: string
  formItems :: "formItem list"
  isQuiz :: bool

record formResult =
  resultTitle :: string
  numQuestions :: nat

definition isWhiteSpace :: "char \<Rightarrow> bool" where
  "isWhiteSpace c = (c \<in> set [CHR 0x09, CHR 0x0A, CHR 0x0B, CHR 0x0C, CHR 0x0D, CHR 0x20, CHR 0xA0])"

text \<open>\<open>!question.text || question.text.trim() === ''\<close>\<close>

definition blankText :: "string \<Rightarrow> bool" where
  "blankText s = (\<not> truthy s \<or> list_all isWhiteSpace s)"

definition defaultChoices :: "(string \<times> bool) list" where
  "defaultChoices = [(''Option 1'', False), (''Option 2'', False)]"

text \<open>Strict equality of a string with \<open>question.correctAnswer\<close>, and
  \<open>Array.isArray(a) && a.includes(s)\<close>.\<close>

definition strictEq :: "string \<Rightarrow> answer \<Rightarrow> bool" where
  "strictEq s a = (a = Str s)"

definition arrayIncludes :: "answer \<Rightarrow> string \<Rightarrow> bool" where
  "arrayIncludes a s = (case a of Arr vs \<Rightarrow> s \<in> set vs | _ \<Rightarrow> False)"

definition addQuestionToForm :: "form \<Rightarrow> question \<Rightarrow> form" where
  "addQuestionToForm form question =
     (let question =
            (if blankText (qtext question)
             then question\<lparr>qtext := (if truthy (qtitle question) then qtitle question
                                      else ''Question '' @ qid question)\<rparr>
             else question);
          ty = qtype question;
          formQuestion =
            (if ty = ''multiple_choice_question'' then
               \<lparr>kind = MultipleChoiceItem, itemTitle = qtext question,
                  itemChoices =
                    (if length (choices question) > 0
                     then map (\<lambda>choice. (ctext choice, strictEq (cid choice) (correctAnswer question)))
                            (choices question)
                     else defaultChoices),
                  itemPoints = None\<rparr>
             else if ty = ''multiple_answers_question'' then
               \<lparr>kind = CheckboxItem, itemTitle = qtext question,
                  itemChoices =
                    (if length (choices question) > 0
                     then map (\<lambda>choice. (ctext choice, arrayIncludes (correctAnswer question) (cid choice)))
                            (choices question)
                     else defaultChoices),
                  itemPoints = None\<rparr>
             else if ty = ''essay_question'' then
               \<lparr>kind = ParagraphTextItem, itemTitle = qtext question, itemChoices = [],
                  itemPoints = None\<rparr>
             else if ty = ''short_answer_question'' then
               \<lparr>kind = TextItem, itemTitle = qtext question, itemChoices = [], itemPoints = None\<rparr>
             else if ty = ''true_false_question'' then
               \<lparr>kind = MultipleChoiceItem, itemTitle = qtext question,
                  itemChoices = [(''True'', strictEq ''true'' (correctAnswer question)),
                                 (''False'', strictEq ''false'' (correctAnswer question))],
                  itemPoints = None\<rparr>
             else
               \<lparr>kind = ParagraphTextItem, itemTitle = qtext question, itemChoices = [],
                  itemPoints = None\<rparr>);
          formQuestion =
            (if isQuiz form \<and> points question > 0
             then formQuestion\<lparr>itemPoints := Some (points question)\<rparr>
             else formQuestion)
      in form\<lparr>formItems := formItems form @ [formQuestion]\<rparr>)"

text \<open>The \<open>try\<close> block of the loop body, for a quiz whose content is \<open>c\<close>.\<close>

definition createForm :: "quiz \<Rightarrow> quizContent \<Rightarrow> form \<times> formResult" where
  "createForm quiz c =
     (let form = \<lparr>formTitle = (if truthy (ctitle c) then ctitle c
                                else ''Quiz '' @ quizIdentifier quiz),
                   formDescription = [], formItems = [], isQuiz = False\<rparr>;
          form = (if truthy (description c) then form\<lparr>formDescription := description c\<rparr>
                  else form);
          questionCount = length (questions c);
          form = (if questionCount > 0 then foldl addQuestionToForm form (questions c) else form);
          hasCorrectAnswers = list_ex (\<lambda>qn. correctAnswer qn \<noteq> Null) (questions c);
          form = (if hasCorrectAnswers then form\<lparr>isQuiz := True\<rparr> else form)
      in (form, \<lparr>resultTitle = formTitle form, numQuestions = questionCount\<rparr>))"

text \<open>The forms created, each with the entry pushed to \<open>results\<close>.\<close>

fun createGoogleForms :: "quiz list \<Rightarrow> (form \<times> formResult) list" where
  "createGoogleForms [] = []"
| "createGoogleForms (quiz # rest) =
     (case content quiz of
        None \<Rightarrow> createGoogleForms rest
      | Some c \<Rightarrow> createForm quiz c # createGoogleForms rest)"

subsection \<open>Readings used in the statements\<close>

text \<open>
  What the \<open>respcondition\<close> loop of the legacy item parser reads from one
  \<open>respcondition\<close>: the text of the first \<open>varequal\<close> child of its first
  \<open>conditionvar\<close> child, if both exist; and the values so read from the
  \<open>respcondition\<close> children of the item's first \<open>resprocessing\<close>, in document order.
\<close>

definition varequalOf :: "element \<Rightarrow> string option" where
  "varequalOf respcondition =
     (case getChild respcondition ''conditionvar'' of
        None \<Rightarrow> None
      | Some conditionvar \<Rightarrow> map_option getText (getChild conditionvar ''varequal''))"

definition varequalTexts :: "element \<Rightarrow> string list" where
  "varequalTexts item =
     (case getChild item ''resprocessing'' of
        None \<Rightarrow> []
      | Some resprocessing \<Rightarrow>
          List.map_filter varequalOf (getChildren resprocessing ''respcondition''))"

text \<open>A \<open>correctAnswer\<close> viewed as a set of values.\<close>

fun answerSet :: "answer \<Rightarrow> string set" where
  "answerSet Null = {}"
| "answerSet (Str s) = {s}"
| "answerSet (Arr vs) = set vs"

text \<open>
  The entry of a metadata field that carries the given label and a non-empty entry, and
  the entries of all such \<open>qmd_description\<close> fields of a legacy quiz body, in document
  order.
\<close>

definition labelledEntry :: "string \<Rightarrow> element \<Rightarrow> string option" where
  "labelledEntry l field =
     (case (getChildText field ''fieldlabel'', getChildText field ''fieldentry'') of
        (Some label, Some entry) \<Rightarrow> if label = l \<and> truthy entry then Some entry else None
      | _ \<Rightarrow> None)"

definition qmdDescriptions :: "element \<Rightarrow> string list" where
  "qmdDescriptions root =
     (case getChild root ''assessment'' of
        None \<Rightarrow> []
      | Some assessment \<Rightarrow>
          (case getChild assessment ''qtimetadata'' of
             None \<Rightarrow> []
           | Some metadata \<Rightarrow>
               List.map_filter (labelledEntry ''qmd_description'')
                 (getChildren metadata ''qtimetadatafield'')))"

text \<open>The type the modern item parser infers from the interaction element of the body.\<close>

definition interactionType :: "element \<Rightarrow> string" where
  "interactionType item =
     (case getChild item ''itemBody'' of
        None \<Rightarrow> []
      | Some itemBody \<Rightarrow>
          if getChild itemBody ''choiceInteraction'' \<noteq> None then ''multiple_choice_question''
          else if getChild itemBody ''extendedTextInteraction'' \<noteq> None then ''essay_question''
          else if getChild itemBody ''textEntryInteraction'' \<noteq> None then ''short_answer_question''
          else [])"

text \<open>The items of a legacy assessment: its own, then those of its sections.\<close>

definition assessmentItems :: "element \<Rightarrow> element list" where
  "assessmentItems assessment =
     getChildren assessment ''item'' @
     concat (map (\<lambda>s. getChildren s ''item'') (getChildren assessment ''section''))"







subsection \<open>Example documents\<close>

text \<open>A host whose \<open>getUuid\<close> always raises.\<close>

definition noUuids :: uuids where
  "noUuids k = None"

definition textElement :: "string \<Rightarrow> string \<Rightarrow> node" where
  "textElement name t = ElementNode (Element name [] [] [TextNode t])"

definition parentElement :: "string \<Rightarrow> node list \<Rightarrow> node" where
  "parentElement name ns = ElementNode (Element name [] [] ns)"

definition exampleField :: "string \<Rightarrow> string \<Rightarrow> node" where
  "exampleField label entry =
     parentElement ''qtimetadatafield''
       [textElement ''fieldlabel'' label, textElement ''fieldentry'' entry]"

definition exampleRespcondition :: "string \<Rightarrow> node" where
  "exampleRespcondition v =
     parentElement ''respcondition''
       [parentElement ''conditionvar'' [textElement ''varequal'' v]]"

text \<open>A legacy item with the given attributes, metadata type and \<open>varequal\<close> values.\<close>

definition legacyItem :: "(string \<times> string) list \<Rightarrow> string \<Rightarrow> string list \<Rightarrow> element" where
  "legacyItem as ty vs =
     Element ''item'' [] as
       [parentElement ''itemmetadata''
          [parentElement ''qtimetadata'' [exampleField ''question_type'' ty]],
        parentElement ''resprocessing'' (map exampleRespcondition vs)]"

definition exampleQuiz :: quiz where
  "exampleQuiz = \<lparr>quizIdentifier = ''res1'', href = ''missing.xml'', files = [''quiz1.xml''],
                   title = ''Quiz'', content = None\<rparr>"

text \<open>A legacy quiz body with two description fields.\<close>

definition twoDescriptions :: element where
  "twoDescriptions =
     Element ''questestinterop'' [] []
       [parentElement ''assessment''
          [parentElement ''qtimetadata''
             [exampleField ''qmd_description'' ''first'',
              exampleField ''qmd_description'' ''second'']]]"

text \<open>A legacy quiz body with three items; the second has no \<open>ident\<close>, the third sits
  in a section.\<close>

definition threeItemsAssessment :: element where
  "threeItemsAssessment =
     Element ''assessment'' [] []
       [ElementNode (legacyItem [(''ident'', ''q1'')] ''multiple_choice_question'' [''A'']),
        ElementNode (legacyItem [] ''essay_question'' []),
        parentElement ''section''
          [ElementNode (legacyItem [(''ident'', ''q3'')] ''essay_question'' [])]]"

definition threeItems :: element where
  "threeItems = Element ''questestinterop'' [] [] [ElementNode threeItemsAssessment]"

text \<open>A modern item with the given body content and correct values.\<close>

definition exampleCorrectResponse :: "string list \<Rightarrow> element" where
  "exampleCorrectResponse vs = Element ''correctResponse'' [] [] (map (textElement ''value'') vs)"

definition exampleResponseDeclaration :: "string list \<Rightarrow> element" where
  "exampleResponseDeclaration vs =
     Element ''responseDeclaration'' [] [] [ElementNode (exampleCorrectResponse vs)]"

definition exampleBody :: "node list \<Rightarrow> element" where
  "exampleBody ns = Element ''itemBody'' [] [] ns"

definition modernItem :: "node list \<Rightarrow> string list \<Rightarrow> element" where
  "modernItem ns vs =
     Element ''item'' [] [(''identifier'', ''i1'')]
       [ElementNode (exampleBody ns), ElementNode (exampleResponseDeclaration vs)]"

text \<open>Parsed quizzes: one with an answered question, one without.\<close>

definition exampleQuestion :: "answer \<Rightarrow> question" where
  "exampleQuestion a =
     \<lparr>qid = ''q'', qtitle = [], qtype = ''multiple_choice_question'', qtext = ''Which?'',
        choices = [\<lparr>cid = ''A'', ctext = ''yes''\<rparr>, \<lparr>cid = ''B'', ctext = ''no''\<rparr>],
        correctAnswer = a, points = 1\<rparr>"

definition parsedQuiz :: "question list \<Rightarrow> quiz" where
  "parsedQuiz qs =
     exampleQuiz\<lparr>content := Some \<lparr>ctitle = ''Quiz'', description = [], questions = qs\<rparr>\<rparr>"



text \<open>
  An archive file and two hosts: on the first the unzip succeeds at once and yields two
  directory markers and the file \<open>a/b/c.xml\<close>; on the second the first unzip raises
  and the retry yields a manifest at the root and one in a folder. Every \<open>createFile\<close>
  succeeds.
\<close>

definition exampleArchive :: blob where
  "exampleArchive = \<lparr>blobName = ''course.imscc'', blobBytes = ''PK''\<rparr>"

definition allSucceed :: "nat \<Rightarrow> bool" where
  "allSucceed i = True"

definition exampleHost :: extractionHost where
  "exampleHost =
     \<lparr>unzipFirst =
        Inr [\<lparr>blobName = ''a/'', blobBytes = []\<rparr>, \<lparr>blobName = ''a/b/'', blobBytes = []\<rparr>,
             \<lparr>blobName = ''a/b/c.xml'', blobBytes = ''<quiz/>''\<rparr>],
      unzipRetry = Inl ''not reached'',
      createFileSucceeds = allSucceed\<rparr>"



section \<open>Properties\<close>

lemma valueOrUuid_Some:
  "attr \<noteq> None \<or> gen k \<noteq> None \<Longrightarrow> \<exists>v k'. valueOrUuid gen k attr = (Some v, k')"
  by (auto simp: valueOrUuid_def split: option.splits)

subsection \<open>The legacy item parser\<close>

lemma respLoop_step:
  "respLoop ty (rc # rest) ca =
     (case varequalOf rc of
        None \<Rightarrow> respLoop ty rest ca
      | Some v \<Rightarrow>
          if ty = ''multiple_choice_question'' then respLoop ty rest (Str v)
          else if ty = ''multiple_answers_question'' then
            (case pushAnswer ca v of None \<Rightarrow> None | Some ca' \<Rightarrow> respLoop ty rest ca')
          else respLoop ty rest ca)"
  by (simp add: varequalOf_def Let_def split: option.splits)

lemma respLoop_mc:
  "respLoop ''multiple_choice_question'' rcs ca =
     Some (if List.map_filter varequalOf rcs = [] then ca
           else Str (last (List.map_filter varequalOf rcs)))"
proof (induction rcs arbitrary: ca)
  case Nil
  show ?case by (simp add: List.map_filter_simps)
next
  case (Cons rc rcs)
  show ?case
    by (cases "varequalOf rc")
       (simp_all only: respLoop_step Cons.IH List.map_filter_simps, simp_all)
qed

lemma respLoop_ma_arr:
  "respLoop ''multiple_answers_question'' rcs (Arr vs) =
     Some (Arr (vs @ List.map_filter varequalOf rcs))"
proof (induction rcs arbitrary: vs)
  case Nil
  show ?case by (simp add: List.map_filter_simps)
next
  case (Cons rc rcs)
  show ?case
    by (cases "varequalOf rc")
       (simp_all only: respLoop_step Cons.IH List.map_filter_simps, simp_all add: Cons.IH)
qed

lemma respLoop_ma_null:
  "respLoop ''multiple_answers_question'' rcs Null =
     Some (if List.map_filter varequalOf rcs = [] then Null
           else Arr (List.map_filter varequalOf rcs))"
proof (induction rcs)
  case Nil
  show ?case by (simp add: List.map_filter_simps)
next
  case (Cons rc rcs)
  show ?case
    by (cases "varequalOf rc")
       (simp_all only: respLoop_step Cons.IH List.map_filter_simps, simp_all add: respLoop_ma_arr)
qed

lemma respLoop_other:
  "ty \<noteq> ''multiple_choice_question'' \<Longrightarrow> ty \<noteq> ''multiple_answers_question'' \<Longrightarrow>
   respLoop ty rcs ca = Some ca"
proof (induction rcs)
  case Nil
  show ?case by simp
next
  case (Cons rc rcs)
  then show ?case
    by (cases "varequalOf rc") (simp_all only: respLoop_step, simp_all)
qed

lemma v1Answer_mc:
  "v1Answer ''multiple_choice_question'' item =
     Some (if varequalTexts item = [] then Null else Str (last (varequalTexts item)))"
  by (simp add: v1Answer_def varequalTexts_def respLoop_mc List.map_filter_simps
           split: option.splits)

lemma v1Answer_ma:
  "v1Answer ''multiple_answers_question'' item =
     Some (if varequalTexts item = [] then Null else Arr (varequalTexts item))"
  by (simp add: v1Answer_def varequalTexts_def respLoop_ma_null List.map_filter_simps
           split: option.splits)

lemma v1Answer_other:
  "ty \<noteq> ''multiple_choice_question'' \<Longrightarrow> ty \<noteq> ''multiple_answers_question'' \<Longrightarrow>
   v1Answer ty item = Some Null"
  by (simp add: v1Answer_def respLoop_other split: option.splits)

lemma v1Answer_total: "\<exists>ca. v1Answer ty item = Some ca"
proof -
  consider "ty = ''multiple_choice_question''" | "ty = ''multiple_answers_question''"
    | "ty \<noteq> ''multiple_choice_question''" "ty \<noteq> ''multiple_answers_question''"
    by blast
  then show ?thesis
  proof cases
    case 1 then show ?thesis by (simp add: v1Answer_mc)
  next
    case 2 then show ?thesis by (simp add: v1Answer_ma)
  next
    case 3 then show ?thesis by (simp add: v1Answer_other)
  qed
qed

text \<open>What the legacy item parser returns, in one equation.\<close>

lemma parseQtiv1Item_result:
  "parseQtiv1Item gen k item =
     (case valueOrUuid gen k (getAttribute item ''ident'') of
        (None, k') \<Rightarrow> (None, k')
      | (Some ident, k') \<Rightarrow>
          (Some \<lparr>qid = ident,
                 qtitle = (case getAttribute item ''title'' of Some t \<Rightarrow> t | None \<Rightarrow> []),
                 qtype = v1Type item, qtext = v1Text item, choices = v1Choices item,
                 correctAnswer = the (v1Answer (v1Type item) item), points = 1\<rparr>, k'))"
proof -
  obtain ca where "v1Answer (v1Type item) item = Some ca"
    using v1Answer_total by blast
  then show ?thesis
    by (simp add: parseQtiv1Item_def Let_def split: prod.splits option.splits)
qed

text \<open>
  Claim C1. A legacy item whose metadata type is \<open>multiple_choice_question\<close> is parsed
  (unless the item has no \<open>ident\<close> and the host fails to supply one), and its
  \<open>correctAnswer\<close> is the last of the \<open>varequal\<close> values the parser reads, one per
  \<open>respcondition\<close> in document order: each later value overwrites the earlier one. With
  no such value it stays null.
\<close>

theorem C1_multiple_choice_last_varequal:
  assumes "v1Type item = ''multiple_choice_question''"
    and "getAttribute item ''ident'' \<noteq> None \<or> gen k \<noteq> None"
  shows "\<exists>q k'. parseQtiv1Item gen k item = (Some q, k') \<and>
           qtype q = ''multiple_choice_question'' \<and>
           correctAnswer q =
             (if varequalTexts item = [] then Null else Str (last (varequalTexts item)))"
proof -
  obtain v k' where "valueOrUuid gen k (getAttribute item ''ident'') = (Some v, k')"
    using valueOrUuid_Some [of _ gen k] assms(2) by blast
  then show ?thesis
    by (simp add: parseQtiv1Item_result assms(1) v1Answer_mc)
qed

text \<open>
  Claim C5. A legacy item whose metadata type is \<open>multiple_answers_question\<close> gets as
  \<open>correctAnswer\<close> the array of all \<open>varequal\<close> values the parser reads (null when
  there is none), so that, viewed as a set, it is the set of these values. For a type that
  is neither \<open>multiple_choice_question\<close> nor \<open>multiple_answers_question\<close> the
  \<open>correctAnswer\<close> stays null.
\<close>

theorem C5_multiple_answers_set:
  assumes "getAttribute item ''ident'' \<noteq> None \<or> gen k \<noteq> None"
  shows "\<exists>q k'. parseQtiv1Item gen k item = (Some q, k') \<and> qtype q = v1Type item \<and>
           (v1Type item = ''multiple_answers_question'' \<longrightarrow>
              correctAnswer q = (if varequalTexts item = [] then Null else Arr (varequalTexts item)) \<and>
              answerSet (correctAnswer q) = set (varequalTexts item)) \<and>
           (v1Type item \<noteq> ''multiple_choice_question'' \<and>
            v1Type item \<noteq> ''multiple_answers_question'' \<longrightarrow> correctAnswer q = Null)"
proof -
  obtain v k' where "valueOrUuid gen k (getAttribute item ''ident'') = (Some v, k')"
    using valueOrUuid_Some [of _ gen k] assms by blast
  then show ?thesis
    by (simp add: parseQtiv1Item_result v1Answer_ma v1Answer_other)
qed

text \<open>Two \<open>respcondition\<close> values \<open>A\<close> then \<open>B\<close>: the answer is \<open>B\<close>.\<close>

theorem C1_multiple_choice_last_varequal_witness:
  "\<exists>q k'. parseQtiv1Item noUuids 0
             (legacyItem [(''ident'', ''q1'')] ''multiple_choice_question'' [''A'', ''B'']) = (Some q, k') \<and>
          qtype q = ''multiple_choice_question'' \<and> correctAnswer q = Str ''B''"
proof -
  let ?item = "legacyItem [(''ident'', ''q1'')] ''multiple_choice_question'' [''A'', ''B'']"
  have t: "v1Type ?item = ''multiple_choice_question''"
    by code_simp
  have a: "getAttribute ?item ''ident'' \<noteq> None \<or> noUuids 0 \<noteq> None"
    by code_simp
  have v: "varequalTexts ?item = [''A'', ''B'']"
    by code_simp
  from C1_multiple_choice_last_varequal [where gen = noUuids and k = 0, OF t a] show ?thesis
    by (simp add: v)
qed

text \<open>Values \<open>A\<close> and \<open>C\<close> in two \<open>respcondition\<close> elements: the set \<open>{A, C}\<close>.\<close>

theorem C5_multiple_answers_set_witness:
  "\<exists>q k'. parseQtiv1Item noUuids 0
             (legacyItem [(''ident'', ''q2'')] ''multiple_answers_question'' [''A'', ''C'']) = (Some q, k') \<and>
          correctAnswer q = Arr [''A'', ''C''] \<and> answerSet (correctAnswer q) = {''A'', ''C''}"
proof -
  let ?item = "legacyItem [(''ident'', ''q2'')] ''multiple_answers_question'' [''A'', ''C'']"
  have t: "v1Type ?item = ''multiple_answers_question''"
    by code_simp
  have a: "getAttribute ?item ''ident'' \<noteq> None \<or> noUuids 0 \<noteq> None"
    by code_simp
  have v: "varequalTexts ?item = [''A'', ''C'']"
    by code_simp
  from C5_multiple_answers_set [where gen = noUuids and k = 0, OF a] show ?thesis
    by (auto simp: v t)
qed

subsection \<open>The legacy quiz parser\<close>

lemma descriptionLoop_step:
  "descriptionLoop (field # rest) d =
     (case labelledEntry ''qmd_description'' field of
        None \<Rightarrow> descriptionLoop rest d
      | Some entry \<Rightarrow> descriptionLoop rest entry)"
  by (simp add: labelledEntry_def split: option.splits)

lemma descriptionLoop_last:
  "descriptionLoop fs d =
     (if List.map_filter (labelledEntry ''qmd_description'') fs = [] then d
      else last (List.map_filter (labelledEntry ''qmd_description'') fs))"
proof (induction fs arbitrary: d)
  case Nil
  show ?case by (simp add: List.map_filter_simps)
next
  case (Cons f fs)
  show ?case
    by (cases "labelledEntry ''qmd_description'' f")
       (simp_all only: descriptionLoop_step Cons.IH List.map_filter_simps, simp_all)
qed

lemma parseQtiv1Quiz_description:
  "description (fst (parseQtiv1Quiz gen k root quiz)) =
     (case getChild root ''assessment'' of
        None \<Rightarrow> []
      | Some assessment \<Rightarrow>
          (case getChild assessment ''qtimetadata'' of
             None \<Rightarrow> []
           | Some metadata \<Rightarrow> descriptionLoop (getChildren metadata ''qtimetadatafield'') []))"
  by (simp add: parseQtiv1Quiz_def Let_def split: option.splits prod.splits)

text \<open>
  Claim C4, as amended. The description returned by the legacy quiz parser is the
  \<open>fieldentry\<close> text of the last \<open>qtimetadatafield\<close>, in document order, whose
  \<open>fieldlabel\<close> is \<open>qmd_description\<close> and whose \<open>fieldentry\<close> is not empty, among the
  fields of the first \<open>qtimetadata\<close> child of the assessment; it is empty when there is
  no such field.
\<close>

theorem C4_description_last_field:
  "description (fst (parseQtiv1Quiz gen k root quiz)) =
     (if qmdDescriptions root = [] then [] else last (qmdDescriptions root))"
  by (simp add: parseQtiv1Quiz_description qmdDescriptions_def descriptionLoop_last
           split: option.splits)

text \<open>
  Claim C4, as stated, fails: with two \<open>qmd_description\<close> fields, \<open>first\<close> and then
  \<open>second\<close>, the loop has no \<open>break\<close> and the description is \<open>second\<close>.
\<close>

theorem C4_first_field_counterexample:
  "qmdDescriptions twoDescriptions = [''first'', ''second''] \<and>
   description (fst (parseQtiv1Quiz noUuids 0 twoDescriptions exampleQuiz)) = ''second'' \<and>
   description (fst (parseQtiv1Quiz noUuids 0 twoDescriptions exampleQuiz)) \<noteq>
     hd (qmdDescriptions twoDescriptions)"
  by code_simp

lemma itemLoop_acc:
  "itemLoop parse gen k items qs =
     (qs @ fst (itemLoop parse gen k items []), snd (itemLoop parse gen k items []))"
proof (induction items arbitrary: k qs)
  case Nil
  show ?case by simp
next
  case (Cons item items)
  obtain r k' where p: "parse gen k item = (r, k')" by (cases "parse gen k item")
  show ?case
  proof (cases r)
    case None
    with p Cons.IH [of k' qs] show ?thesis by simp
  next
    case (Some q)
    with p Cons.IH [of k' "qs @ [q]"] Cons.IH [of k' "[q]"] show ?thesis by simp
  qed
qed

lemma itemLoop_append:
  "itemLoop parse gen k (xs @ ys) qs =
     (case itemLoop parse gen k xs qs of (qs', k') \<Rightarrow> itemLoop parse gen k' ys qs')"
proof (induction xs arbitrary: k qs)
  case Nil
  show ?case by simp
next
  case (Cons x xs)
  obtain r k' where p: "parse gen k x = (r, k')" by (cases "parse gen k x")
  show ?case
    by (cases r) (simp_all add: p Cons.IH)
qed

lemma sectionLoop_concat:
  "sectionLoop gen k sections qs =
     itemLoop parseQtiv1Item gen k (concat (map (\<lambda>s. getChildren s ''item'') sections)) qs"
proof (induction sections arbitrary: k qs)
  case Nil
  show ?case by simp
next
  case (Cons s sections)
  show ?case
    by (simp add: itemLoop_append Cons.IH split: prod.splits)
qed

lemma parseQtiv1Quiz_questions:
  assumes "getChild root ''assessment'' = Some assessment"
  shows "questions (fst (parseQtiv1Quiz gen k root quiz)) =
           fst (itemLoop parseQtiv1Item gen k (assessmentItems assessment) [])"
  using assms
  by (simp add: parseQtiv1Quiz_def Let_def assessmentItems_def sectionLoop_concat itemLoop_append
           split: option.splits prod.splits)

text \<open>
  Claim C10. When the legacy item parser returns null for one item of a legacy quiz body,
  the questions of the quiz are those parsed from the items before it followed by those
  parsed from the items after it, in document order (the assessment's own items, then
  those of its sections): the failed item adds nothing and stops nothing.
\<close>

theorem C10_item_failure_isolated:
  assumes "getChild root ''assessment'' = Some assessment"
    and "assessmentItems assessment = before @ bad # after"
    and "itemLoop parseQtiv1Item gen k before [] = (qs1, k1)"
    and "parseQtiv1Item gen k1 bad = (None, k2)"
    and "itemLoop parseQtiv1Item gen k2 after [] = (qs2, k3)"
  shows "questions (fst (parseQtiv1Quiz gen k root quiz)) = qs1 @ qs2"
proof -
  have "itemLoop parseQtiv1Item gen k (before @ bad # after) [] =
          itemLoop parseQtiv1Item gen k2 after qs1"
    by (simp add: itemLoop_append assms(3) assms(4))
  also have "\<dots> = (qs1 @ qs2, k3)"
    using itemLoop_acc [of parseQtiv1Item gen k2 after qs1] by (simp add: assms(5))
  finally show ?thesis
    by (simp add: parseQtiv1Quiz_questions [OF assms(1)] assms(2))
qed

text \<open>
  Three items, the second without \<open>ident\<close> on a host whose \<open>getUuid\<close> raises: the
  second item fails, the first and the third are returned.
\<close>

theorem C10_item_failure_isolated_witness:
  "fst (parseQtiv1Item noUuids 0 (legacyItem [] ''essay_question'' [])) = None \<and>
   map qid (questions (fst (parseQtiv1Quiz noUuids 0 threeItems exampleQuiz))) = [''q1'', ''q3'']"
proof -
  let ?i1 = "legacyItem [(''ident'', ''q1'')] ''multiple_choice_question'' [''A'']"
  let ?i2 = "legacyItem [] ''essay_question'' []"
  let ?i3 = "legacyItem [(''ident'', ''q3'')] ''essay_question'' []"
  let ?q1 = "\<lparr>qid = ''q1'', qtitle = [], qtype = ''multiple_choice_question'', qtext = [],
               choices = [], correctAnswer = Str ''A'', points = 1\<rparr>"
  let ?q3 = "\<lparr>qid = ''q3'', qtitle = [], qtype = ''essay_question'', qtext = [],
               choices = [], correctAnswer = Null, points = 1\<rparr>"
  have a: "getChild threeItems ''assessment'' = Some threeItemsAssessment"
    by code_simp
  have b: "assessmentItems threeItemsAssessment = [?i1] @ ?i2 # [?i3]"
    by code_simp
  have c: "itemLoop parseQtiv1Item noUuids 0 [?i1] [] = ([?q1], 0)"
    by code_simp
  have d: "parseQtiv1Item noUuids 0 ?i2 = (None, 1)"
    by code_simp
  have e: "itemLoop parseQtiv1Item noUuids 1 [?i3] [] = ([?q3], 1)"
    by code_simp
  from C10_item_failure_isolated [OF a b c d e, of exampleQuiz] d show ?thesis
    by simp
qed

subsection \<open>The modern item parser\<close>

lemma qtype_v2Answer: "qtype (v2Answer item q) = qtype q"
  by (simp add: v2Answer_def Let_def split: option.splits)

lemma qtype_v2Body:
  "qtype (v2Body itemBody q) =
     (if getChild itemBody ''choiceInteraction'' \<noteq> None then ''multiple_choice_question''
      else if getChild itemBody ''extendedTextInteraction'' \<noteq> None then ''essay_question''
      else if getChild itemBody ''textEntryInteraction'' \<noteq> None then ''short_answer_question''
      else qtype q)"
  by (auto simp: v2Body_def Let_def split: option.splits)

lemma correctAnswer_v2Body: "correctAnswer (v2Body itemBody q) = correctAnswer q"
  by (simp add: v2Body_def Let_def split: option.splits)

lemma parseQtiv2Item_type:
  assumes "parseQtiv2Item gen k item = (Some q, k')"
  shows "qtype q = interactionType item"
  using assms
  by (auto simp: parseQtiv2Item_def Let_def interactionType_def qtype_v2Answer qtype_v2Body
           split: prod.splits option.splits)

lemma parseQtiv2Item_answer:
  assumes "parseQtiv2Item gen k item = (Some q, k')"
    and "getChild item ''responseDeclaration'' = Some responseDeclaration"
    and "getChild responseDeclaration ''correctResponse'' = Some correctResponse"
  shows "correctAnswer q =
           (case getChildren correctResponse ''value'' of
              [] \<Rightarrow> Null
            | [v] \<Rightarrow> Str (getText v)
            | vs \<Rightarrow> Arr (map getText vs))"
  using assms
  by (auto simp: parseQtiv2Item_def Let_def v2Answer_def correctAnswer_v2Body
           split: prod.splits option.splits list.splits)

lemma parseQtiv2Item_returns:
  assumes "getAttribute item ''identifier'' \<noteq> None \<or> gen k \<noteq> None"
  shows "\<exists>q k'. parseQtiv2Item gen k item = (Some q, k')"
proof -
  obtain v k' where "valueOrUuid gen k (getAttribute item ''identifier'') = (Some v, k')"
    using valueOrUuid_Some [of _ gen k] assms by blast
  then show ?thesis
    by (simp add: parseQtiv2Item_def Let_def)
qed

lemma parseQtiv2Item_fails:
  "(fst (parseQtiv2Item gen k item) = None) =
     (getAttribute item ''identifier'' = None \<and> gen k = None)"
  by (auto simp: parseQtiv2Item_def Let_def valueOrUuid_def split: prod.splits option.splits)

lemma parseQtiv1Item_fails:
  "(fst (parseQtiv1Item gen k item) = None) =
     (getAttribute item ''ident'' = None \<and> gen k = None)"
  by (auto simp: parseQtiv1Item_result valueOrUuid_def split: prod.splits option.splits)

lemma parseQtiv1Item_type:
  "parseQtiv1Item gen k item = (Some q, k') \<Longrightarrow> qtype q = v1Type item"
  by (auto simp: parseQtiv1Item_result split: prod.splits option.splits)

text \<open>
  Claim C6. A modern item with a \<open>responseDeclaration/correctResponse\<close> element is
  parsed (unless it has no \<open>identifier\<close> and the host fails to supply one). With exactly
  one \<open>value\<close> child the \<open>correctAnswer\<close> is that value's text; with more than one it is
  the list of their texts. In both cases the type is the one inferred from the interaction
  element of the body, which is never \<open>multiple_answers_question\<close>.
\<close>

theorem C6_correct_response_values:
  assumes "getChild item ''responseDeclaration'' = Some responseDeclaration"
    and "getChild responseDeclaration ''correctResponse'' = Some correctResponse"
    and "getAttribute item ''identifier'' \<noteq> None \<or> gen k \<noteq> None"
  shows "\<exists>q k'. parseQtiv2Item gen k item = (Some q, k') \<and>
           (\<forall>v. getChildren correctResponse ''value'' = [v] \<longrightarrow>
                correctAnswer q = Str (getText v)) \<and>
           (length (getChildren correctResponse ''value'') > 1 \<longrightarrow>
                correctAnswer q = Arr (map getText (getChildren correctResponse ''value''))) \<and>
           qtype q = interactionType item \<and>
           qtype q \<noteq> ''multiple_answers_question''"
proof -
  obtain q k' where p: "parseQtiv2Item gen k item = (Some q, k')"
    using parseQtiv2Item_returns [of item gen k] assms(3) by blast
  have t: "qtype q = interactionType item"
    by (rule parseQtiv2Item_type [OF p])
  have n: "interactionType item \<noteq> ''multiple_answers_question''"
    by (simp add: interactionType_def split: option.splits)
  have a: "correctAnswer q =
             (case getChildren correctResponse ''value'' of
                [] \<Rightarrow> Null | [v] \<Rightarrow> Str (getText v) | vs \<Rightarrow> Arr (map getText vs))"
    by (rule parseQtiv2Item_answer [OF p assms(1) assms(2)])
  have one: "\<forall>v. getChildren correctResponse ''value'' = [v] \<longrightarrow> correctAnswer q = Str (getText v)"
    using a by simp
  have many: "length (getChildren correctResponse ''value'') > 1 \<longrightarrow>
                correctAnswer q = Arr (map getText (getChildren correctResponse ''value''))"
    using a by (simp split: list.splits)
  from p t n one many show ?thesis by simp
qed

text \<open>A choice item with one correct value, and with two: the type stays
  \<open>multiple_choice_question\<close>.\<close>

theorem C6_correct_response_values_witness:
  "(\<exists>q k'. parseQtiv2Item noUuids 0 (modernItem [parentElement ''choiceInteraction'' []] [''A'']) =
             (Some q, k') \<and>
           correctAnswer q = Str ''A'' \<and> qtype q = ''multiple_choice_question'') \<and>
   (\<exists>q k'. parseQtiv2Item noUuids 0 (modernItem [parentElement ''choiceInteraction'' []] [''A'', ''B'']) =
             (Some q, k') \<and>
           correctAnswer q = Arr [''A'', ''B''] \<and> qtype q = ''multiple_choice_question'')"
proof -
  let ?one = "modernItem [parentElement ''choiceInteraction'' []] [''A'']"
  let ?two = "modernItem [parentElement ''choiceInteraction'' []] [''A'', ''B'']"
  have r1: "getChild ?one ''responseDeclaration'' = Some (exampleResponseDeclaration [''A''])"
    by code_simp
  have c1: "getChild (exampleResponseDeclaration [''A'']) ''correctResponse'' =
              Some (exampleCorrectResponse [''A''])"
    by code_simp
  have i1: "getAttribute ?one ''identifier'' \<noteq> None \<or> noUuids 0 \<noteq> None"
    by code_simp
  have v1: "getChildren (exampleCorrectResponse [''A'']) ''value'' =
              [Element ''value'' [] [] [TextNode ''A'']]"
    by code_simp
  have t1: "interactionType ?one = ''multiple_choice_question''"
    by code_simp
  have r2: "getChild ?two ''responseDeclaration'' = Some (exampleResponseDeclaration [''A'', ''B''])"
    by code_simp
  have c2: "getChild (exampleResponseDeclaration [''A'', ''B'']) ''correctResponse'' =
              Some (exampleCorrectResponse [''A'', ''B''])"
    by code_simp
  have i2: "getAttribute ?two ''identifier'' \<noteq> None \<or> noUuids 0 \<noteq> None"
    by code_simp
  have v2: "getChildren (exampleCorrectResponse [''A'', ''B'']) ''value'' =
              [Element ''value'' [] [] [TextNode ''A''], Element ''value'' [] [] [TextNode ''B'']]"
    by code_simp
  have t2: "interactionType ?two = ''multiple_choice_question''"
    by code_simp
  have g: "getText (Element ''value'' [] [] [TextNode ''A'']) = ''A''"
          "getText (Element ''value'' [] [] [TextNode ''B'']) = ''B''"
    by (simp_all add: getText_def)
  from C6_correct_response_values [where gen = noUuids and k = 0, OF r1 c1 i1]
  have one: "\<exists>q k'. parseQtiv2Item noUuids 0 ?one = (Some q, k') \<and>
           correctAnswer q = Str ''A'' \<and> qtype q = ''multiple_choice_question''"
    by (simp add: v1 t1 g) blast
  from C6_correct_response_values [where gen = noUuids and k = 0, OF r2 c2 i2]
  have two: "\<exists>q k'. parseQtiv2Item noUuids 0 ?two = (Some q, k') \<and>
           correctAnswer q = Arr [''A'', ''B''] \<and> qtype q = ''multiple_choice_question''"
    by (simp add: v2 t2 g) blast
  from one two show ?thesis
    by blast
qed

text \<open>
  Claim C8. A modern item whose \<open>itemBody\<close> has none of \<open>choiceInteraction\<close>,
  \<open>extendedTextInteraction\<close>, \<open>textEntryInteraction\<close> is parsed into a question of
  type \<open>""\<close>. In both pathways the item parser returns null only when the item has no
  identifier attribute and the host's \<open>getUuid\<close> raises, whatever the type; and the
  question returned carries the type unchanged: the one inferred from the body (modern),
  the metadata entry (legacy).
\<close>

theorem C8_unrecognized_type_no_failure:
  "(getChild item ''itemBody'' = Some itemBody \<and>
    getChild itemBody ''choiceInteraction'' = None \<and>
    getChild itemBody ''extendedTextInteraction'' = None \<and>
    getChild itemBody ''textEntryInteraction'' = None \<and>
    (getAttribute item ''identifier'' \<noteq> None \<or> gen k \<noteq> None) \<longrightarrow>
      (\<exists>q k'. parseQtiv2Item gen k item = (Some q, k') \<and> qtype q = [])) \<and>
   ((fst (parseQtiv2Item gen k item) = None) =
      (getAttribute item ''identifier'' = None \<and> gen k = None)) \<and>
   ((fst (parseQtiv1Item gen k item) = None) =
      (getAttribute item ''ident'' = None \<and> gen k = None)) \<and>
   (\<forall>q k'. parseQtiv2Item gen k item = (Some q, k') \<longrightarrow> qtype q = interactionType item) \<and>
   (\<forall>q k'. parseQtiv1Item gen k item = (Some q, k') \<longrightarrow> qtype q = v1Type item)"
proof -
  have modern: "\<exists>q k'. parseQtiv2Item gen k item = (Some q, k') \<and> qtype q = []"
    if h: "getChild item ''itemBody'' = Some itemBody \<and>
           getChild itemBody ''choiceInteraction'' = None \<and>
           getChild itemBody ''extendedTextInteraction'' = None \<and>
           getChild itemBody ''textEntryInteraction'' = None \<and>
           (getAttribute item ''identifier'' \<noteq> None \<or> gen k \<noteq> None)"
  proof -
    obtain q k' where p: "parseQtiv2Item gen k item = (Some q, k')"
      using parseQtiv2Item_returns [of item gen k] h by blast
    have "interactionType item = []"
      using h by (simp add: interactionType_def)
    with parseQtiv2Item_type [OF p] p show ?thesis
      by simp
  qed
  have t2: "\<forall>q k'. parseQtiv2Item gen k item = (Some q, k') \<longrightarrow> qtype q = interactionType item"
    using parseQtiv2Item_type by blast
  have t1: "\<forall>q k'. parseQtiv1Item gen k item = (Some q, k') \<longrightarrow> qtype q = v1Type item"
    using parseQtiv1Item_type by blast
  from modern t2 t1 parseQtiv2Item_fails [of gen k item] parseQtiv1Item_fails [of gen k item]
  show ?thesis
    by blast
qed

text \<open>A modern item whose body holds only a prompt.\<close>

theorem C8_unrecognized_type_no_failure_witness:
  "\<exists>q k'. parseQtiv2Item noUuids 0 (modernItem [textElement ''prompt'' ''Why?''] []) = (Some q, k') \<and>
          qtype q = []"
proof -
  let ?item = "modernItem [textElement ''prompt'' ''Why?''] []"
  let ?body = "exampleBody [textElement ''prompt'' ''Why?'']"
  have h: "getChild ?item ''itemBody'' = Some ?body \<and>
           getChild ?body ''choiceInteraction'' = None \<and>
           getChild ?body ''extendedTextInteraction'' = None \<and>
           getChild ?body ''textEntryInteraction'' = None \<and>
           (getAttribute ?item ''identifier'' \<noteq> None \<or> noUuids 0 \<noteq> None)"
    by code_simp
  from C8_unrecognized_type_no_failure [of ?item ?body noUuids 0] h show ?thesis
    by blast
qed

subsection \<open>Form creation\<close>

lemma isQuiz_addQuestionToForm: "isQuiz (addQuestionToForm form q) = isQuiz form"
  by (simp add: addQuestionToForm_def Let_def)

lemma isQuiz_foldl_addQuestionToForm:
  "isQuiz (foldl addQuestionToForm form qs) = isQuiz form"
  by (induction qs arbitrary: form) (simp_all add: isQuiz_addQuestionToForm)

lemma isQuiz_createForm:
  "isQuiz (fst (createForm quiz c)) = list_ex (\<lambda>qn. correctAnswer qn \<noteq> Null) (questions c)"
  by (simp add: createForm_def Let_def isQuiz_foldl_addQuestionToForm)

text \<open>
  Claim C9. For the quizzes handed to form creation that have a content, in order, the
  form created is marked as a quiz exactly when some question of the content has a
  \<open>correctAnswer\<close> other than null.
\<close>

theorem C9_graded_iff_some_answer:
  "map (\<lambda>r. isQuiz (fst r)) (createGoogleForms quizzes) =
     map (\<lambda>c. \<exists>qn \<in> set (questions c). correctAnswer qn \<noteq> Null)
       (List.map_filter content quizzes)"
proof (induction quizzes)
  case Nil
  show ?case by (simp add: List.map_filter_simps)
next
  case (Cons quiz quizzes)
  show ?case
    by (cases "content quiz")
       (simp_all add: Cons.IH List.map_filter_simps isQuiz_createForm list_ex_iff)
qed

text \<open>Three quizzes: one with an answered question, one without, one with no content.\<close>

theorem C9_graded_iff_some_answer_witness:
  "map (\<lambda>r. isQuiz (fst r))
     (createGoogleForms
        [parsedQuiz [exampleQuestion Null, exampleQuestion (Str ''A'')],
         parsedQuiz [exampleQuestion Null], exampleQuiz]) = [True, False]"
  using C9_graded_iff_some_answer
          [of "[parsedQuiz [exampleQuestion Null, exampleQuestion (Str ''A'')],
                parsedQuiz [exampleQuestion Null], exampleQuiz]"]
  by (simp add: List.map_filter_simps parsedQuiz_def exampleQuiz_def exampleQuestion_def)

subsection \<open>Content resolution\<close>








subsection \<open>Extraction and the manifest locator\<close>


















text \<open>
  Claim C7 fails on the code at the archive of two directory markers and the file
  \<open>a/b/c.xml\<close>. Extraction makes the two folders and one leaf in folder \<open>b\<close>, but it
  creates the leaf from the blob as it is: the last segment of the path, computed as
  \<open>extractedFileName\<close>, is only tested for emptiness, and the leaf is named
  \<open>a/b/c.xml\<close>. The script's own lookup finds no file at \<open>a/b/c.xml\<close> in the
  extracted tree; in the tree whose leaf is named \<open>c.xml\<close> it finds the leaf.
\<close>

theorem C7_leaf_not_at_entry_path:
  "extractIMSCC exampleHost exampleArchive createTempFolder =
     Inr ([File ''a/b/c.xml'' ''<quiz/>''],
          Folder ''IMSCC_Temp'' []
            [Folder ''a'' [] [Folder ''b'' [File ''a/b/c.xml'' ''<quiz/>''] []]]) \<and>
   findFileByPath
     (Folder ''IMSCC_Temp'' []
        [Folder ''a'' [] [Folder ''b'' [File ''a/b/c.xml'' ''<quiz/>''] []]])
     ''a/b/c.xml'' = None \<and>
   findFileByPath
     (Folder ''IMSCC_Temp'' []
        [Folder ''a'' [] [Folder ''b'' [File ''c.xml'' ''<quiz/>''] []]])
     ''a/b/c.xml'' = Some (File ''c.xml'' ''<quiz/>'')"
  by code_simp

end
